theory Spec2Isabelle
  imports Main
begin

section \<open>Data model\<close>

text \<open>
  The embedding follows \<^verbatim>\<open>statements.go\<close> (package \<^verbatim>\<open>sql_ast\<close>). Go strings are byte
  sequences and are modelled as \<^typ>\<open>string\<close>. A Go slice is modelled as a list: a
  \<^verbatim>\<open>nil\<close> slice and an empty slice are both \<open>[]\<close>. Identifiers and the
  sub-expressions that the source dereferences without a \<^verbatim>\<open>nil\<close> test are taken to be
  present; the sub-expressions that the source tests against \<^verbatim>\<open>nil\<close> are options.
\<close>

text \<open>
  A Go \<^verbatim>\<open>panic(msg)\<close> is a result of its own: a function that may panic returns
  \<open>go_panic + 'a\<close>, with \<open>Inl (Panic msg)\<close> for the panic.
\<close>

datatype go_panic = Panic string

text \<open>
  Modelled from the spec: the declaration of \<^verbatim>\<open>SqlTarget\<close> is not in
  \<^verbatim>\<open>statements.go\<close>, which names only \<^verbatim>\<open>TargetSchema\<close> and
  \<^verbatim>\<open>TargetConstraint\<close> and formats a target with \<^verbatim>\<open>%s\<close>. The spec lists the kinds
  schema, table, column, constraint, index and leaves the list open: \<open>TargetOther\<close> stands
  for any further kind and carries its noun.
\<close>

datatype SqlTarget =
    TargetSchema
  | TargetTable
  | TargetColumn
  | TargetConstraint
  | TargetIndex
  | TargetOther string

fun SqlTarget_String :: "SqlTarget \<Rightarrow> string" where
  "SqlTarget_String TargetSchema = ''schema''"
| "SqlTarget_String TargetTable = ''table''"
| "SqlTarget_String TargetColumn = ''column''"
| "SqlTarget_String TargetConstraint = ''constraint''"
| "SqlTarget_String TargetIndex = ''index''"
| "SqlTarget_String (TargetOther noun) = noun"

text \<open>
  Modelled from the spec: the interface \<^verbatim>\<open>SqlIdent\<close> and its implementations are not in
  \<^verbatim>\<open>statements.go\<close>, which uses \<^verbatim>\<open>GetName()\<close>, the type \<^verbatim>\<open>*Selector\<close> and its fields
  \<^verbatim>\<open>Container\<close> and \<^verbatim>\<open>Name\<close>. The spec has a plain name and a qualified selector,
  and \<^verbatim>\<open>GetName()\<close> returns the identifier's own name (for a selector, the rightmost
  component).
\<close>

datatype SqlIdent =
    Ident string
  | Selector string string  \<comment> \<open>\<^verbatim>\<open>Container\<close>, \<^verbatim>\<open>Name\<close>\<close>

fun GetName :: "SqlIdent \<Rightarrow> string" where
  "GetName (Ident n) = n"
| "GetName (Selector container n) = n"

record NamedObject =
  Schema :: string
  Object :: string
  Field :: string

type_synonym Dependencies = "NamedObject list"

text \<open>
  Modelled from the spec: the helpers \<^verbatim>\<open>dependedOn2\<close>, \<^verbatim>\<open>dependedOn3\<close> and
  \<^verbatim>\<open>concatDependencies\<close> are called by \<^verbatim>\<open>statements.go\<close> and declared elsewhere. By
  the spec a statement emits the key \<open>{schema, object, field}\<close> (the field empty for the
  two-level key), and \<open>Dependencies\<close> is an ordered sequence kept in insertion order.
\<close>

definition dependedOn3 :: "string \<Rightarrow> string \<Rightarrow> string \<Rightarrow> Dependencies" where
  "dependedOn3 s ob f = [\<lparr>Schema = s, Object = ob, Field = f\<rparr>]"

definition dependedOn2 :: "string \<Rightarrow> string \<Rightarrow> Dependencies" where
  "dependedOn2 s ob = [\<lparr>Schema = s, Object = ob, Field = ''''\<rparr>]"

definition concatDependencies :: "Dependencies \<Rightarrow> Dependencies \<Rightarrow> Dependencies" where
  "concatDependencies a b = a @ b"

text \<open>
  Modelled from the spec: the interface \<^verbatim>\<open>SqlExpr\<close> and its implementations are not in
  \<^verbatim>\<open>statements.go\<close>, which calls \<^verbatim>\<open>String()\<close> and \<^verbatim>\<open>dependedOn()\<close> on an expression
  and inspects two dynamic types: \<^verbatim>\<open>*AddExpr\<close> (field \<^verbatim>\<open>Name\<close>) and
  \<^verbatim>\<open>*TableBodyDescriber\<close> (field \<^verbatim>\<open>Fields\<close>, each with a \<^verbatim>\<open>Name\<close>). An expression
  is the fields the source reads together with what its own two methods return: its text
  and its dependency edges. \<open>OtherExpr\<close> is any other implementation.
\<close>

datatype SqlExpr =
    AddExpr SqlIdent string Dependencies
      \<comment> \<open>\<^verbatim>\<open>Name\<close>, result of \<^verbatim>\<open>String()\<close>, result of \<^verbatim>\<open>dependedOn()\<close>\<close>
  | TableBodyDescriber "SqlIdent list" string Dependencies
      \<comment> \<open>the \<^verbatim>\<open>Name\<close> of each of \<^verbatim>\<open>Fields\<close>, in order; text; edges\<close>
  | OtherExpr string Dependencies

fun SqlExpr_String :: "SqlExpr \<Rightarrow> string" where
  "SqlExpr_String (AddExpr n txt deps) = txt"
| "SqlExpr_String (TableBodyDescriber fs txt deps) = txt"
| "SqlExpr_String (OtherExpr txt deps) = txt"

fun SqlExpr_dependedOn :: "SqlExpr \<Rightarrow> Dependencies" where
  "SqlExpr_dependedOn (AddExpr n txt deps) = deps"
| "SqlExpr_dependedOn (TableBodyDescriber fs txt deps) = deps"
| "SqlExpr_dependedOn (OtherExpr txt deps) = deps"

record TableDesc =
  Table :: SqlIdent
  Alias :: string

record AlterStmt =
  Target :: SqlTarget
  Name :: SqlIdent
  Alter :: SqlExpr

record CreateStmt =
  Target :: SqlTarget
  Name :: SqlIdent
  Create :: "SqlExpr option"
  IfNotX :: bool

record DropStmt =
  Target :: SqlTarget
  Name :: SqlIdent

record OnConflict =
  Cause :: SqlExpr
  Set :: "SqlExpr list"

record InsertStmt =
  Table :: TableDesc
  Insert :: "string \<rightharpoonup> SqlExpr"
  OnConflict :: "OnConflict option"

record UpdateStmt =
  Table :: TableDesc
  Set :: "SqlExpr list"
  Where :: "SqlExpr option"

record SelectStmt =
  Columns :: "SqlExpr list"
  From :: TableDesc
  Where :: "SqlExpr option"

record WithStmt =
  Name :: string
  With :: SelectStmt
  Select :: SelectStmt

section \<open>Library functions of Go\<close>

text \<open>
  \<^verbatim>\<open>strings.Split(s, sep)\<close> for a separator of one byte: the text before the first
  separator, then the split of the text after it; a text without separator is the only
  element. The result has one element more than \<open>s\<close> has separators.
\<close>

function strings_Split :: "string \<Rightarrow> char \<Rightarrow> string list" where
  "strings_Split s sep =
     (case dropWhile (\<lambda>c. c \<noteq> sep) s of
        [] \<Rightarrow> [s]
      | _ # rest \<Rightarrow> takeWhile (\<lambda>c. c \<noteq> sep) s # strings_Split rest sep)"
  by pat_completeness auto
termination
proof (relation "measure (\<lambda>(s, sep). length s)")
  show "wf (measure (\<lambda>(s, sep). length s))" by simp
next
  fix s :: string and sep :: char and x21 :: char and x22 :: string
  assume a: "dropWhile (\<lambda>c. c \<noteq> sep) s = x21 # x22"
  have "length (dropWhile (\<lambda>c. c \<noteq> sep) s) \<le> length s"
    by (rule length_dropWhile_le)
  with a show "((x22, sep), (s, sep)) \<in> measure (\<lambda>(s, sep). length s)"
    by simp
qed

declare strings_Split.simps [simp del]

text \<open>\<^verbatim>\<open>strings.Join(elems, sep)\<close>.\<close>

fun strings_Join :: "string list \<Rightarrow> string \<Rightarrow> string" where
  "strings_Join [] sep = []"
| "strings_Join [x] sep = x"
| "strings_Join (x # y # ys) sep = x @ sep @ strings_Join (y # ys) sep"

section \<open>Name resolution of Alter and Create\<close>

text \<open>
  \<^verbatim>\<open>AlterStmt.solved\<close> (lines 62 to 73) and \<^verbatim>\<open>CreateStmt.solved\<close> (lines 101 to 112)
  open with the same block, which sets the schema \<open>s\<close> and the object \<open>o\<close> from the
  target and the name or panics. It is written once here and returns the pair.
\<close>

definition resolveName :: "SqlTarget \<Rightarrow> SqlIdent \<Rightarrow> go_panic + (string \<times> string)" where
  "resolveName target name =
     (case name of
        Selector container nm \<Rightarrow> Inr (container, nm)
      | Ident _ \<Rightarrow>
          (let n = strings_Split (GetName name) (CHR ''.'') in
           if length n > 1 then Inr (n ! 0, n ! 1)
           else if target = TargetSchema then Inr (GetName name, '''')
           else Inl (Panic (''cannot resolve schema for `'' @ GetName name @ ''`''))))"

section \<open>AlterStmt\<close>

definition AlterStmt_dependedOn :: "AlterStmt \<Rightarrow> Dependencies" where
  "AlterStmt_dependedOn c = SqlExpr_dependedOn (Alter c)"

definition AlterStmt_solved :: "AlterStmt \<Rightarrow> go_panic + Dependencies" where
  "AlterStmt_solved c =
     (case resolveName (AlterStmt.Target c) (AlterStmt.Name c) of
        Inl p \<Rightarrow> Inl p
      | Inr (s, ob) \<Rightarrow>
          (let f = (case Alter c of AddExpr nm _ _ \<Rightarrow> GetName nm | _ \<Rightarrow> '''')
           in Inr (dependedOn3 s ob f)))"

section \<open>CreateStmt\<close>

definition CreateStmt_dependedOn :: "CreateStmt \<Rightarrow> Dependencies" where
  "CreateStmt_dependedOn c =
     (case Create c of Some e \<Rightarrow> SqlExpr_dependedOn e | None \<Rightarrow> [])"

text \<open>The loop of \<^verbatim>\<open>CreateStmt.solved\<close> over \<^verbatim>\<open>body.Fields\<close>.\<close>

fun solved_fields :: "string \<Rightarrow> string \<Rightarrow> SqlIdent list \<Rightarrow> Dependencies \<Rightarrow> Dependencies" where
  "solved_fields s ob [] result = result"
| "solved_fields s ob (f # fs) result =
     solved_fields s ob fs (concatDependencies result (dependedOn3 s ob (GetName f)))"

definition CreateStmt_solved :: "CreateStmt \<Rightarrow> go_panic + Dependencies" where
  "CreateStmt_solved c =
     (case resolveName (CreateStmt.Target c) (CreateStmt.Name c) of
        Inl p \<Rightarrow> Inl p
      | Inr (s, ob) \<Rightarrow>
          (let result = dependedOn2 s ob in
           case Create c of
             Some (TableBodyDescriber fs _ _) \<Rightarrow> Inr (solved_fields s ob fs result)
           | _ \<Rightarrow> Inr result))"

text \<open>
  Modelled from the spec: \<^verbatim>\<open>utils.NonEmptyStringsConcatSpaceSeparated\<close> belongs to another
  package and is not in \<^verbatim>\<open>statements.go\<close>. By its name and by the shared rendering rule
  of the spec it joins its tokens with single spaces and omits the empty ones. Each
  argument is given here as its text; a \<^verbatim>\<open>nil\<close> argument has the empty text.
\<close>

definition NonEmptyStringsConcatSpaceSeparated :: "string list \<Rightarrow> string" where
  "NonEmptyStringsConcatSpaceSeparated a = strings_Join (filter (\<lambda>t. t \<noteq> '''') a) '' ''"

text \<open>The text of the argument \<^verbatim>\<open>c.Create\<close>, which may be \<^verbatim>\<open>nil\<close>.\<close>

fun argText :: "SqlExpr option \<Rightarrow> string" where
  "argText None = ''''"
| "argText (Some e) = SqlExpr_String e"

definition CreateStmt_String :: "CreateStmt \<Rightarrow> string" where
  "CreateStmt_String c =
     (let ifNotExists = (if IfNotX c then ''if not exists'' else '''') in
      if CreateStmt.Target c = TargetConstraint
      then NonEmptyStringsConcatSpaceSeparated [''create'', argText (Create c)]
      else NonEmptyStringsConcatSpaceSeparated
             [''create'', SqlTarget_String (CreateStmt.Target c), ifNotExists,
              GetName (CreateStmt.Name c), argText (Create c)])"

definition AlterStmt_String :: "AlterStmt \<Rightarrow> string" where
  "AlterStmt_String c =
     ''alter '' @ SqlTarget_String (AlterStmt.Target c) @ '' '' @ GetName (AlterStmt.Name c)
       @ '' '' @ SqlExpr_String (Alter c)"

section \<open>DropStmt\<close>


definition DropStmt_dependedOn :: "DropStmt \<Rightarrow> Dependencies" where
  "DropStmt_dependedOn c = []"

definition DropStmt_solved :: "DropStmt \<Rightarrow> Dependencies" where
  "DropStmt_solved c = []"

section \<open>UpdateStmt\<close>



fun UpdateStmt_loop :: "Dependencies \<Rightarrow> SqlExpr list \<Rightarrow> Dependencies" where
  "UpdateStmt_loop result [] = result"
| "UpdateStmt_loop result (s # ss) =
     UpdateStmt_loop (concatDependencies result (SqlExpr_dependedOn s)) ss"

definition UpdateStmt_dependedOn :: "UpdateStmt \<Rightarrow> Dependencies" where
  "UpdateStmt_dependedOn c = UpdateStmt_loop [] (UpdateStmt.Set c)"

definition UpdateStmt_solved :: "UpdateStmt \<Rightarrow> Dependencies" where
  "UpdateStmt_solved c = []"

section \<open>OnConflict and InsertStmt\<close>



fun InsertStmt_loop ::
  "(string \<rightharpoonup> SqlExpr) \<Rightarrow> string list \<Rightarrow> string list \<times> string list \<Rightarrow> string list \<times> string list"
where
  "InsertStmt_loop m [] (fieldsList, valuesList) = (fieldsList, valuesList)"
| "InsertStmt_loop m (f # ks) (fieldsList, valuesList) =
     (case m f of
        Some s \<Rightarrow> InsertStmt_loop m ks (fieldsList @ [f], valuesList @ [SqlExpr_String s])
      | None \<Rightarrow> InsertStmt_loop m ks (fieldsList, valuesList))"


definition InsertStmt_dependedOn :: "InsertStmt \<Rightarrow> Dependencies" where
  "InsertStmt_dependedOn c =
     [\<lparr>Schema = '''',
       Object = GetName (TableDesc.Table (InsertStmt.Table c)),
       Field = ''''\<rparr>]"

definition InsertStmt_solved :: "InsertStmt \<Rightarrow> Dependencies" where
  "InsertStmt_solved c = []"

section \<open>SelectStmt and WithStmt\<close>


definition SelectStmt_dependedOn :: "SelectStmt \<Rightarrow> Dependencies" where
  "SelectStmt_dependedOn c = []"

definition SelectStmt_solved :: "SelectStmt \<Rightarrow> Dependencies" where
  "SelectStmt_solved c = []"

text \<open>
  \<^verbatim>\<open>append(a, b...)\<close> of Go, as a sequence: the elements of \<open>a\<close>, then those of \<open>b\<close>.
  \<^verbatim>\<open>WithStmt.String\<close> is left out: it formats the two \<^verbatim>\<open>SelectStmt\<close> values with
  \<^verbatim>\<open>%s\<close>, and \<^verbatim>\<open>String\<close> is declared on the pointer type only, so that the text is what
  the formatter prints for the fields of the struct, whose types are declared outside
  \<^verbatim>\<open>statements.go\<close>.
\<close>

definition WithStmt_dependedOn :: "WithStmt \<Rightarrow> Dependencies" where
  "WithStmt_dependedOn c = SelectStmt_dependedOn (Select c) @ SelectStmt_dependedOn (With c)"

definition WithStmt_solved :: "WithStmt \<Rightarrow> Dependencies" where
  "WithStmt_solved c = SelectStmt_solved (Select c) @ SelectStmt_solved (With c)"

section \<open>Terms of the rendering rule\<close>



text \<open>A field and a value are aligned in a map when the value is the text of the expression
  that the map holds for the field.\<close>

definition aligned :: "(string \<rightharpoonup> SqlExpr) \<Rightarrow> string \<Rightarrow> string \<Rightarrow> bool" where
  "aligned m f v \<longleftrightarrow> (\<exists>e. m f = Some e \<and> v = SqlExpr_String e)"

section \<open>Properties of the library functions\<close>

lemma strings_Split_last:
  assumes "dropWhile (\<lambda>c. c \<noteq> sep) s = []"
  shows "strings_Split s sep = [s]"
proof -
  have "strings_Split s sep =
      (case dropWhile (\<lambda>c. c \<noteq> sep) s of
         [] \<Rightarrow> [s]
       | _ # rest \<Rightarrow> takeWhile (\<lambda>c. c \<noteq> sep) s # strings_Split rest sep)"
    by (rule strings_Split.simps)
  also have "\<dots> = [s]"
    unfolding assms by simp
  finally show ?thesis .
qed

lemma strings_Split_more:
  assumes "dropWhile (\<lambda>c. c \<noteq> sep) s = x # rest"
  shows "strings_Split s sep = takeWhile (\<lambda>c. c \<noteq> sep) s # strings_Split rest sep"
proof -
  have "strings_Split s sep =
      (case dropWhile (\<lambda>c. c \<noteq> sep) s of
         [] \<Rightarrow> [s]
       | _ # rest \<Rightarrow> takeWhile (\<lambda>c. c \<noteq> sep) s # strings_Split rest sep)"
    by (rule strings_Split.simps)
  also have "\<dots> = takeWhile (\<lambda>c. c \<noteq> sep) s # strings_Split rest sep"
    unfolding assms by simp
  finally show ?thesis .
qed

lemma strings_Split_no_sep:
  assumes "sep \<notin> set s"
  shows "strings_Split s sep = [s]"
proof -
  from assms have "dropWhile (\<lambda>c. c \<noteq> sep) s = []" by auto
  then show ?thesis by (rule strings_Split_last)
qed

lemma strings_Split_first:
  assumes "sep \<notin> set a"
  shows "strings_Split (a @ sep # b) sep = a # strings_Split b sep"
proof -
  from assms have d: "dropWhile (\<lambda>c. c \<noteq> sep) (a @ sep # b) = sep # b"
    by (subst dropWhile_append2) auto
  from assms have t: "takeWhile (\<lambda>c. c \<noteq> sep) (a @ sep # b) = a"
    by (subst takeWhile_append2) auto
  show ?thesis
    using strings_Split_more [OF d] by (simp only: t)
qed

lemma strings_Split_length:
  "length (strings_Split s sep) = Suc (length (filter (\<lambda>c. c = sep) s))"
proof (induction s sep rule: strings_Split.induct)
  case (1 s sep)
  show ?case
  proof (cases "dropWhile (\<lambda>c. c \<noteq> sep) s")
    case Nil
    then have "sep \<notin> set s" by (auto simp: dropWhile_eq_Nil_conv)
    then have "filter (\<lambda>c. c = sep) s = []" by (auto simp: filter_empty_conv)
    with strings_Split_last [OF Nil] show ?thesis by simp
  next
    case (Cons x rest)
    have x: "x = sep"
      using Cons hd_dropWhile [of "\<lambda>c. c \<noteq> sep" s] by auto
    have s: "s = takeWhile (\<lambda>c. c \<noteq> sep) s @ sep # rest"
      using Cons x takeWhile_dropWhile_id [of "\<lambda>c. c \<noteq> sep" s] by simp
    have "filter (\<lambda>c. c = sep) (takeWhile (\<lambda>c. c \<noteq> sep) s) = []"
      by (auto simp: filter_empty_conv dest: set_takeWhileD)
    then have "length (filter (\<lambda>c. c = sep) s) = Suc (length (filter (\<lambda>c. c = sep) rest))"
      by (subst s) simp
    with strings_Split_more [OF Cons] "1.IH" [OF Cons] show ?thesis
      by simp
  qed
qed

section \<open>Name resolution: the results\<close>

lemma strings_Split_hd:
  "\<exists>rest. strings_Split s sep = takeWhile (\<lambda>c. c \<noteq> sep) s # rest"
proof (cases "dropWhile (\<lambda>c. c \<noteq> sep) s")
  case Nil
  then have "takeWhile (\<lambda>c. c \<noteq> sep) s = s"
    by (auto simp: dropWhile_eq_Nil_conv takeWhile_eq_all_conv)
  with strings_Split_last [OF Nil] show ?thesis by (simp only: list.inject) blast
next
  case (Cons x rest)
  from strings_Split_more [OF Cons] show ?thesis by simp
qed

lemma strings_Split_with_sep:
  assumes "sep \<in> set s"
  shows "\<exists>rest. strings_Split s sep =
           takeWhile (\<lambda>c. c \<noteq> sep) s
             # takeWhile (\<lambda>c. c \<noteq> sep) (tl (dropWhile (\<lambda>c. c \<noteq> sep) s)) # rest"
proof (cases "dropWhile (\<lambda>c. c \<noteq> sep) s")
  case Nil
  with assms show ?thesis by (auto simp: dropWhile_eq_Nil_conv)
next
  case (Cons x rest)
  obtain more where "strings_Split rest sep = takeWhile (\<lambda>c. c \<noteq> sep) rest # more"
    using strings_Split_hd [of rest sep] by blast
  with strings_Split_more [OF Cons] Cons show ?thesis by simp
qed

lemma resolveName_unqualified:
  assumes "CHR ''.'' \<notin> set n" and "t \<noteq> TargetSchema"
  shows "resolveName t (Ident n) = Inl (Panic (''cannot resolve schema for `'' @ n @ ''`''))"
  using assms by (simp add: resolveName_def strings_Split_no_sep)

lemma resolveName_dotted:
  assumes "CHR ''.'' \<in> set n"
  shows "resolveName t (Ident n) =
           Inr (takeWhile (\<lambda>c. c \<noteq> CHR ''.'') n,
                takeWhile (\<lambda>c. c \<noteq> CHR ''.'') (tl (dropWhile (\<lambda>c. c \<noteq> CHR ''.'') n)))"
proof -
  obtain rest where "strings_Split n (CHR ''.'') =
      takeWhile (\<lambda>c. c \<noteq> CHR ''.'') n
        # takeWhile (\<lambda>c. c \<noteq> CHR ''.'') (tl (dropWhile (\<lambda>c. c \<noteq> CHR ''.'') n)) # rest"
    using strings_Split_with_sep [OF assms] by blast
  then show ?thesis by (simp add: resolveName_def)
qed

lemma resolveName_two_part:
  assumes "CHR ''.'' \<notin> set s" and "CHR ''.'' \<notin> set ob"
  shows "resolveName t (Ident (s @ ''.'' @ ob)) = Inr (s, ob)"
proof -
  have "strings_Split (s @ CHR ''.'' # ob) (CHR ''.'') = [s, ob]"
    using assms by (simp add: strings_Split_first strings_Split_no_sep)
  then show ?thesis by (simp add: resolveName_def)
qed

lemma solved_fields_eq:
  "solved_fields s ob fs result =
     result @ map (\<lambda>f. \<lparr>Schema = s, Object = ob, Field = GetName f\<rparr>) fs"
  by (induction fs arbitrary: result) (simp_all add: concatDependencies_def dependedOn3_def)

lemma CreateStmt_solved_resolved:
  assumes "resolveName (CreateStmt.Target c) (CreateStmt.Name c) = Inr (s, ob)"
  shows "CreateStmt_solved c =
           Inr (\<lparr>Schema = s, Object = ob, Field = ''''\<rparr>
                # map (\<lambda>f. \<lparr>Schema = s, Object = ob, Field = GetName f\<rparr>)
                    (case Create c of Some (TableBodyDescriber cols _ _) \<Rightarrow> cols | _ \<Rightarrow> []))"
  using assms
  by (simp add: CreateStmt_solved_def dependedOn2_def solved_fields_eq Let_def
           split: option.splits SqlExpr.splits)

lemma AlterStmt_solved_resolved:
  assumes "resolveName (AlterStmt.Target c) (AlterStmt.Name c) = Inr (s, ob)"
  shows "AlterStmt_solved c =
           Inr [\<lparr>Schema = s, Object = ob,
                  Field = (case Alter c of AddExpr nm _ _ \<Rightarrow> GetName nm | _ \<Rightarrow> '''')\<rparr>]"
  using assms by (simp add: AlterStmt_solved_def dependedOn3_def Let_def)

section \<open>Spacing of joined texts\<close>







section \<open>Rendering: the results\<close>







lemma InsertStmt_loop_aligned:
  assumes "list_all2 (aligned m) fl0 vl0"
    and "InsertStmt_loop m ks (fl0, vl0) = (fl, vl)"
  shows "list_all2 (aligned m) fl vl"
  using assms
proof (induction ks arbitrary: fl0 vl0)
  case Nil
  then show ?case by simp
next
  case (Cons f ks)
  show ?case
  proof (cases "m f")
    case None
    with Cons.prems have "InsertStmt_loop m ks (fl0, vl0) = (fl, vl)" by simp
    with Cons.IH Cons.prems(1) show ?thesis by blast
  next
    case (Some e)
    with Cons.prems have run: "InsertStmt_loop m ks (fl0 @ [f], vl0 @ [SqlExpr_String e]) = (fl, vl)"
      by simp
    have "list_all2 (aligned m) (fl0 @ [f]) (vl0 @ [SqlExpr_String e])"
    proof (rule list_all2_appendI)
      show "list_all2 (aligned m) fl0 vl0" by (rule Cons.prems(1))
      show "list_all2 (aligned m) [f] [SqlExpr_String e]"
        using Some by (simp add: aligned_def)
    qed
    with Cons.IH run show ?thesis by blast
  qed
qed



section \<open>Claims\<close>

text \<open>
  C1. The claim: for an Alter or Create statement whose name is an unqualified identifier
  without \<open>.\<close> and whose target is not the schema target, \<open>solved()\<close> fails with a
  typed, recoverable error that carries the literal name, and never with a
  process-terminating fault. The code has no error result: \<open>solved()\<close> returns
  \<open>Dependencies\<close> only, and on such a name it calls \<^verbatim>\<open>panic\<close> with a message built
  around the name. First the counterexample, at \<open>CreateStmt{Target: table, Name: users}\<close>;
  then the amended claim: on every such statement \<open>solved()\<close> panics with the message
  \<open>cannot resolve schema for `name`\<close>, whatever the sub-expression is.
\<close>

theorem unresolvable_name_counterexample:
  "CreateStmt_solved \<lparr>CreateStmt.Target = TargetTable, Name = Ident ''users'',
      Create = None, IfNotX = False\<rparr>
     = Inl (Panic ''cannot resolve schema for `users`'')"
  by (simp add: CreateStmt_solved_def resolveName_def strings_Split.simps)

text \<open>
  C1, amended: an unqualified name without \<open>.\<close> and a target other than the schema
  target make \<open>solved()\<close> of Alter and of Create panic with the message
  \<open>cannot resolve schema for `name`\<close>.
\<close>

theorem unresolvable_name_panics:
  assumes "CHR ''.'' \<notin> set n" and "t \<noteq> TargetSchema"
  shows "AlterStmt_solved \<lparr>AlterStmt.Target = t, Name = Ident n, Alter = a\<rparr>
           = Inl (Panic (''cannot resolve schema for `'' @ n @ ''`''))
       \<and> CreateStmt_solved \<lparr>CreateStmt.Target = t, Name = Ident n, Create = cr, IfNotX = x\<rparr>
           = Inl (Panic (''cannot resolve schema for `'' @ n @ ''`''))"
  using assms
  by (simp add: AlterStmt_solved_def CreateStmt_solved_def resolveName_unqualified)

theorem unresolvable_name_panics_witness:
  "CHR ''.'' \<notin> set ''users'' \<and> TargetTable \<noteq> TargetSchema
   \<and> AlterStmt_solved \<lparr>AlterStmt.Target = TargetTable, Name = Ident ''users'',
        Alter = OtherExpr ''owner to me'' []\<rparr>
       = Inl (Panic ''cannot resolve schema for `users`'')
   \<and> CreateStmt_solved \<lparr>CreateStmt.Target = TargetTable, Name = Ident ''users'',
        Create = None, IfNotX = False\<rparr>
       = Inl (Panic ''cannot resolve schema for `users`'')"
  using unresolvable_name_panics [of "''users''" TargetTable "OtherExpr ''owner to me'' []" None False]
  by simp

text \<open>
  C2. The claim: \<open>InsertStmt.dependedOn()\<close> returns exactly one edge
  \<open>{schema, object, ""}\<close>, with schema and object resolved from the table identifier.
  The code returns exactly one edge, but its schema is always empty (the source marks
  the field \<^verbatim>\<open>// TODO ?\<close>) and its object is the whole name: for the table
  \<open>public.users\<close> the edge is \<open>{"", "public.users", ""}\<close>.
\<close>

theorem InsertStmt_dependedOn_blank_schema:
  "InsertStmt_dependedOn c =
     [\<lparr>Schema = '''', Object = GetName (TableDesc.Table (InsertStmt.Table c)), Field = ''''\<rparr>]
   \<and> InsertStmt_dependedOn
        \<lparr>InsertStmt.Table = \<lparr>TableDesc.Table = Ident ''public.users'', Alias = ''''\<rparr>,
         Insert = Map.empty, OnConflict = None\<rparr>
      = [\<lparr>Schema = '''', Object = ''public.users'', Field = ''''\<rparr>]"
  by (simp add: InsertStmt_dependedOn_def)

text \<open>
  C3. The claim: for every Create and every Alter statement whose name is the two-part
  string \<open>s.o\<close>, \<open>solved()\<close> includes \<open>{s, o, ""}\<close>, whatever the sub-expression
  is. Counterexample: an Alter statement that adds the column \<open>c\<close> solves the one key
  \<open>{s, o, c}\<close>.
\<close>

theorem two_part_name_counterexample:
  "AlterStmt_solved \<lparr>AlterStmt.Target = TargetTable, Name = Ident ''s.o'',
      Alter = AddExpr (Ident ''c'') ''add column c int'' []\<rparr>
     = Inr [\<lparr>Schema = ''s'', Object = ''o'', Field = ''c''\<rparr>]
   \<and> \<lparr>Schema = ''s'', Object = ''o'', Field = ''''\<rparr>
       \<notin> set [\<lparr>Schema = ''s'', Object = ''o'', Field = ''c''\<rparr>]"
  by (simp add: AlterStmt_solved_def resolveName_def strings_Split.simps dependedOn3_def)

text \<open>
  C3, amended: for a name \<open>s.o\<close> of two parts, \<open>solved()\<close> of a Create statement
  includes \<open>{s, o, ""}\<close> whatever \<open>Create\<close> is, and \<open>solved()\<close> of an Alter
  statement is the single key \<open>{s, o, f}\<close>, where \<open>f\<close> is the name of the added column
  when \<open>Alter\<close> is an add-column expression and is empty otherwise.
\<close>

theorem two_part_name_solved:
  assumes "CHR ''.'' \<notin> set s" and "CHR ''.'' \<notin> set ob"
  shows "(\<exists>ds. CreateStmt_solved
              \<lparr>CreateStmt.Target = t, Name = Ident (s @ ''.'' @ ob), Create = cr, IfNotX = x\<rparr>
            = Inr ds
          \<and> \<lparr>Schema = s, Object = ob, Field = ''''\<rparr> \<in> set ds)
       \<and> AlterStmt_solved \<lparr>AlterStmt.Target = t, Name = Ident (s @ ''.'' @ ob), Alter = a\<rparr>
           = Inr [\<lparr>Schema = s, Object = ob,
                   Field = (case a of AddExpr nm _ _ \<Rightarrow> GetName nm | _ \<Rightarrow> '''')\<rparr>]"
proof -
  have r: "resolveName t (Ident (s @ ''.'' @ ob)) = Inr (s, ob)"
    using assms by (rule resolveName_two_part)
  have "\<exists>ds. CreateStmt_solved
              \<lparr>CreateStmt.Target = t, Name = Ident (s @ ''.'' @ ob), Create = cr, IfNotX = x\<rparr>
            = Inr ds
          \<and> \<lparr>Schema = s, Object = ob, Field = ''''\<rparr> \<in> set ds"
    using CreateStmt_solved_resolved
            [of "\<lparr>CreateStmt.Target = t, Name = Ident (s @ ''.'' @ ob), Create = cr, IfNotX = x\<rparr>" s ob] r
    by simp
  moreover have "AlterStmt_solved \<lparr>AlterStmt.Target = t, Name = Ident (s @ ''.'' @ ob), Alter = a\<rparr>
           = Inr [\<lparr>Schema = s, Object = ob,
                   Field = (case a of AddExpr nm _ _ \<Rightarrow> GetName nm | _ \<Rightarrow> '''')\<rparr>]"
    using AlterStmt_solved_resolved
            [of "\<lparr>AlterStmt.Target = t, Name = Ident (s @ ''.'' @ ob), Alter = a\<rparr>" s ob] r
    by simp
  ultimately show ?thesis by blast
qed

theorem two_part_name_solved_witness:
  "CHR ''.'' \<notin> set ''public'' \<and> CHR ''.'' \<notin> set ''users''
   \<and> (\<exists>ds. CreateStmt_solved
              \<lparr>CreateStmt.Target = TargetTable, Name = Ident ''public.users'',
               Create = Some (OtherExpr ''(id int)'' []), IfNotX = False\<rparr>
            = Inr ds
          \<and> \<lparr>Schema = ''public'', Object = ''users'', Field = ''''\<rparr> \<in> set ds)
   \<and> AlterStmt_solved \<lparr>AlterStmt.Target = TargetTable, Name = Ident ''public.users'',
         Alter = OtherExpr ''owner to me'' []\<rparr>
       = Inr [\<lparr>Schema = ''public'', Object = ''users'', Field = ''''\<rparr>]"
  using two_part_name_solved [of "''public''" "''users''" TargetTable
          "Some (OtherExpr ''(id int)'' [])" False "OtherExpr ''owner to me'' []"]
  by simp

text \<open>
  C4. For a Create statement whose name resolves to the schema \<open>s\<close> and the object
  \<open>ob\<close> and whose body is a table-body describer with the columns \<open>cols\<close>,
  \<open>solved()\<close> is the key \<open>{s, ob, ""}\<close> followed by one key \<open>{s, ob, column}\<close> for
  each declared column, in the order of declaration.
\<close>

theorem table_body_solved:
  assumes "resolveName (CreateStmt.Target c) (CreateStmt.Name c) = Inr (s, ob)"
    and "Create c = Some (TableBodyDescriber cols txt deps)"
  shows "CreateStmt_solved c =
           Inr (\<lparr>Schema = s, Object = ob, Field = ''''\<rparr>
                # map (\<lambda>f. \<lparr>Schema = s, Object = ob, Field = GetName f\<rparr>) cols)"
  using CreateStmt_solved_resolved [OF assms(1)] assms(2) by simp

theorem table_body_solved_witness:
  "resolveName TargetTable (Ident ''public.users'') = Inr (''public'', ''users'')
   \<and> CreateStmt_solved
        \<lparr>CreateStmt.Target = TargetTable, Name = Ident ''public.users'',
         Create = Some (TableBodyDescriber [Ident ''a'', Ident ''b''] ''(a int, b int)'' []),
         IfNotX = True\<rparr>
      = Inr [\<lparr>Schema = ''public'', Object = ''users'', Field = ''''\<rparr>,
             \<lparr>Schema = ''public'', Object = ''users'', Field = ''a''\<rparr>,
             \<lparr>Schema = ''public'', Object = ''users'', Field = ''b''\<rparr>]"
proof -
  have r: "resolveName TargetTable (Ident ''public.users'') = Inr (''public'', ''users'')"
    by (simp add: resolveName_def strings_Split.simps)
  show ?thesis
    using r table_body_solved [of
        "\<lparr>CreateStmt.Target = TargetTable, Name = Ident ''public.users'',
          Create = Some (TableBodyDescriber [Ident ''a'', Ident ''b''] ''(a int, b int)'' []),
          IfNotX = True\<rparr>" "''public''" "''users''" "[Ident ''a'', Ident ''b'']"
        "''(a int, b int)''" "[]"]
    by simp
qed

text \<open>
  C6. The claim: a name that is not a selector and contains \<open>.\<close> is split on the
  first \<open>.\<close> into the schema and the whole remainder as the object, also when the name
  has more than one \<open>.\<close>. Counterexample: for the name \<open>a.b.c\<close> the object is
  \<open>b\<close>, not \<open>b.c\<close>: the code splits on every \<open>.\<close> and takes the first two
  parts.
\<close>

theorem first_dot_split_counterexample:
  "CreateStmt_solved \<lparr>CreateStmt.Target = TargetTable, Name = Ident ''a.b.c'',
      Create = None, IfNotX = False\<rparr>
     = Inr [\<lparr>Schema = ''a'', Object = ''b'', Field = ''''\<rparr>]
   \<and> AlterStmt_solved \<lparr>AlterStmt.Target = TargetTable, Name = Ident ''a.b.c'',
        Alter = OtherExpr ''owner to me'' []\<rparr>
     = Inr [\<lparr>Schema = ''a'', Object = ''b'', Field = ''''\<rparr>]
   \<and> ''b'' \<noteq> ''b.c''"
  by (simp add: CreateStmt_solved_def AlterStmt_solved_def resolveName_def
        strings_Split.simps dependedOn2_def dependedOn3_def)

text \<open>
  C6, amended: for a name that is not a selector and contains \<open>.\<close>, the schema is
  the text before the first \<open>.\<close> and the object is the text between the first
  \<open>.\<close> and the second one (the whole remainder when there is no second one); what
  follows a second \<open>.\<close> is dropped. \<open>solved()\<close> of Alter and of Create use this pair.
\<close>

theorem dotted_name_split:
  assumes "CHR ''.'' \<in> set n"
  shows "resolveName t (Ident n) =
           Inr (takeWhile (\<lambda>c. c \<noteq> CHR ''.'') n,
                takeWhile (\<lambda>c. c \<noteq> CHR ''.'') (tl (dropWhile (\<lambda>c. c \<noteq> CHR ''.'') n)))
       \<and> (\<exists>f. AlterStmt_solved \<lparr>AlterStmt.Target = t, Name = Ident n, Alter = a\<rparr>
              = Inr [\<lparr>Schema = takeWhile (\<lambda>c. c \<noteq> CHR ''.'') n,
                      Object = takeWhile (\<lambda>c. c \<noteq> CHR ''.'') (tl (dropWhile (\<lambda>c. c \<noteq> CHR ''.'') n)),
                      Field = f\<rparr>])
       \<and> (\<exists>more. CreateStmt_solved
                \<lparr>CreateStmt.Target = t, Name = Ident n, Create = cr, IfNotX = x\<rparr>
              = Inr (\<lparr>Schema = takeWhile (\<lambda>c. c \<noteq> CHR ''.'') n,
                       Object = takeWhile (\<lambda>c. c \<noteq> CHR ''.'') (tl (dropWhile (\<lambda>c. c \<noteq> CHR ''.'') n)),
                       Field = ''''\<rparr> # more))"
proof -
  note r = resolveName_dotted [OF assms, of t]
  have "\<exists>f. AlterStmt_solved \<lparr>AlterStmt.Target = t, Name = Ident n, Alter = a\<rparr>
              = Inr [\<lparr>Schema = takeWhile (\<lambda>c. c \<noteq> CHR ''.'') n,
                      Object = takeWhile (\<lambda>c. c \<noteq> CHR ''.'') (tl (dropWhile (\<lambda>c. c \<noteq> CHR ''.'') n)),
                      Field = f\<rparr>]"
    using AlterStmt_solved_resolved
            [of "\<lparr>AlterStmt.Target = t, Name = Ident n, Alter = a\<rparr>"] r
    by simp
  moreover have "\<exists>more. CreateStmt_solved
                \<lparr>CreateStmt.Target = t, Name = Ident n, Create = cr, IfNotX = x\<rparr>
              = Inr (\<lparr>Schema = takeWhile (\<lambda>c. c \<noteq> CHR ''.'') n,
                       Object = takeWhile (\<lambda>c. c \<noteq> CHR ''.'') (tl (dropWhile (\<lambda>c. c \<noteq> CHR ''.'') n)),
                       Field = ''''\<rparr> # more)"
    using CreateStmt_solved_resolved
            [of "\<lparr>CreateStmt.Target = t, Name = Ident n, Create = cr, IfNotX = x\<rparr>"] r
    by simp
  ultimately show ?thesis using r by blast
qed

theorem dotted_name_split_witness:
  "CHR ''.'' \<in> set ''a.b.c''
   \<and> resolveName TargetTable (Ident ''a.b.c'') = Inr (''a'', ''b'')
   \<and> (\<exists>f. AlterStmt_solved \<lparr>AlterStmt.Target = TargetTable, Name = Ident ''a.b.c'',
              Alter = OtherExpr ''owner to me'' []\<rparr>
            = Inr [\<lparr>Schema = ''a'', Object = ''b'', Field = f\<rparr>])
   \<and> (\<exists>more. CreateStmt_solved \<lparr>CreateStmt.Target = TargetTable, Name = Ident ''a.b.c'',
              Create = None, IfNotX = False\<rparr>
            = Inr (\<lparr>Schema = ''a'', Object = ''b'', Field = ''''\<rparr> # more))"
  using dotted_name_split [of "''a.b.c''" TargetTable "OtherExpr ''owner to me'' []" None False]
  by simp

text \<open>
  C7. For every With statement, \<open>dependedOn()\<close> is \<open>Select.dependedOn()\<close> followed by
  \<open>With.dependedOn()\<close>, and \<open>solved()\<close> is \<open>Select.solved()\<close> followed by
  \<open>With.solved()\<close>.
\<close>

theorem WithStmt_composition:
  "WithStmt_dependedOn w = SelectStmt_dependedOn (Select w) @ SelectStmt_dependedOn (With w)
   \<and> WithStmt_solved w = SelectStmt_solved (Select w) @ SelectStmt_solved (With w)"
  by (simp add: WithStmt_dependedOn_def WithStmt_solved_def)







text \<open>
  C9. Whatever order the loop of \<^verbatim>\<open>InsertStmt.String\<close> visits the keys in, the list of
  fields and the list of values that it builds have the same length, and the value at
  each position is the text of the expression that the map holds for the field at that
  position.
\<close>

theorem insert_lists_aligned:
  assumes "InsertStmt_loop m ks ([], []) = (fieldsList, valuesList)"
  shows "length fieldsList = length valuesList
       \<and> (\<forall>i < length fieldsList.
            \<exists>e. m (fieldsList ! i) = Some e \<and> valuesList ! i = SqlExpr_String e)"
proof -
  have "list_all2 (aligned m) fieldsList valuesList"
    using InsertStmt_loop_aligned [of m "[]" "[]" ks fieldsList valuesList] assms by simp
  then show ?thesis
    by (auto simp: list_all2_conv_all_nth aligned_def)
qed

theorem insert_lists_aligned_witness:
  "InsertStmt_loop [''a'' \<mapsto> OtherExpr ''1'' [], ''b'' \<mapsto> OtherExpr ''2'' []] [''b'', ''a''] ([], [])
     = ([''b'', ''a''], [''2'', ''1''])
   \<and> length [''b'', ''a''] = length [''2'', ''1'']
   \<and> (1::nat) < length [''b'', ''a'']
   \<and> (\<exists>e. [''a'' \<mapsto> OtherExpr ''1'' [], ''b'' \<mapsto> OtherExpr ''2'' []] ([''b'', ''a''] ! 1) = Some e
          \<and> [''2'', ''1''] ! 1 = SqlExpr_String e)"
proof -
  have run: "InsertStmt_loop [''a'' \<mapsto> OtherExpr ''1'' [], ''b'' \<mapsto> OtherExpr ''2'' []] [''b'', ''a''] ([], [])
     = ([''b'', ''a''], [''2'', ''1''])"
    by simp
  from insert_lists_aligned [OF run] run show ?thesis by simp
qed

text \<open>
  C10. A Create statement whose target is the constraint target renders as \<open>create\<close>
  followed by the text of its body: the text does not depend on the name. Its
  \<open>solved()\<close> resolves the name all the same, and fails (with a panic) when the name is
  an unqualified identifier without \<open>.\<close>.
\<close>

theorem constraint_create_ignores_name_in_text_only:
  assumes "CreateStmt.Target c = TargetConstraint"
  shows "CreateStmt_String c =
           (if argText (Create c) = '''' then ''create'' else ''create '' @ argText (Create c))
       \<and> CreateStmt_String (c\<lparr>CreateStmt.Name := other\<rparr>) = CreateStmt_String c
       \<and> (CreateStmt.Name c = Ident n \<and> CHR ''.'' \<notin> set n \<longrightarrow>
            CreateStmt_solved c = Inl (Panic (''cannot resolve schema for `'' @ n @ ''`'')))"
  using assms
  by (simp add: CreateStmt_String_def NonEmptyStringsConcatSpaceSeparated_def
        CreateStmt_solved_def resolveName_unqualified)

theorem constraint_create_ignores_name_in_text_only_witness:
  "CreateStmt.Target \<lparr>CreateStmt.Target = TargetConstraint, Name = Ident ''users_pk'',
        Create = Some (OtherExpr ''constraint users_pk primary key (id)'' []), IfNotX = False\<rparr>
     = TargetConstraint
   \<and> CHR ''.'' \<notin> set ''users_pk''
   \<and> CreateStmt_String \<lparr>CreateStmt.Target = TargetConstraint, Name = Ident ''users_pk'',
        Create = Some (OtherExpr ''constraint users_pk primary key (id)'' []), IfNotX = False\<rparr>
     = ''create constraint users_pk primary key (id)''
   \<and> CreateStmt_String \<lparr>CreateStmt.Target = TargetConstraint, Name = Ident ''public.other'',
        Create = Some (OtherExpr ''constraint users_pk primary key (id)'' []), IfNotX = False\<rparr>
     = ''create constraint users_pk primary key (id)''
   \<and> CreateStmt_solved \<lparr>CreateStmt.Target = TargetConstraint, Name = Ident ''users_pk'',
        Create = Some (OtherExpr ''constraint users_pk primary key (id)'' []), IfNotX = False\<rparr>
     = Inl (Panic ''cannot resolve schema for `users_pk`'')"
  using constraint_create_ignores_name_in_text_only [of
      "\<lparr>CreateStmt.Target = TargetConstraint, Name = Ident ''users_pk'',
        Create = Some (OtherExpr ''constraint users_pk primary key (id)'' []), IfNotX = False\<rparr>"
      "Ident ''public.other''" "''users_pk''"]
  by simp

end
